theory Spec2Isabelle
  imports Complex_Main "HOL-Library.AList"
begin

section \<open>Slippage estimation and protection engine\<close>

text \<open>
  A shallow embedding of \<^verbatim>\<open>slippage-calculator.service.ts\<close>
  (\<^verbatim>\<open>SlippageCalculatorService\<close>), of the protection service
  (\<^verbatim>\<open>SlippageProtectionService\<close>) and of \<^verbatim>\<open>shouldSplitOrder\<close> from
  \<^verbatim>\<open>trading.service.example.ts\<close>.

  Conventions of the embedding.
  \<^item> A JavaScript \<^verbatim>\<open>number\<close> is a \<^typ>\<open>real\<close>: the arithmetic is exact, rounding and the
    values NaN and Infinity are outside the model. A quotient of the model agrees with the
    source only where the divisor is not zero; the statements below are about finite
    numbers.
  \<^item> A \<^verbatim>\<open>Date\<close> is its epoch time in milliseconds, an \<^typ>\<open>int\<close>; \<^verbatim>\<open>new Date()\<close> is
    an argument \<open>now\<close> of the operation that reads the clock.
  \<^item> An optional field or argument is an \<^typ>\<open>'a option\<close>; JavaScript truthiness is written
    out (\<open>0\<close>, the empty string and an absent value are falsy).
  \<^item> A thrown exception is \<open>Inl\<close> of the sum type \<open>error + 'a\<close>.
  \<^item> What the market data provider returns to one call (\<^verbatim>\<open>getCurrentMarketPrice\<close>,
    \<^verbatim>\<open>getMarketDepth\<close>, mocks in the source) is an argument of that call.
  \<^item> Logging and the elapsed-time warnings have no effect on any result and are left out.
  \<^item> Message strings that interpolate numbers are datatypes carrying the numbers.
  \<^item> Field names shared by several source classes carry a prefix, since the fields of the
    records of one theory share a name space.
\<close>

subsection \<open>Data model\<close>

datatype side = Buy | Sell

datatype SlippageToleranceLevel = STRICT | MODERATE | RELAXED

datatype error = BadRequestException string

record Order =
  price :: real
  quantity :: real

record MarketDepth =
  bids :: "Order list"
  asks :: "Order list"
  depth_timestamp :: int

text \<open>The answers of the provider to one estimation call.\<close>

record MarketData =
  getCurrentMarketPrice :: real
  getMarketDepth :: MarketDepth

record HistoricalSlippage =
  hist_symbol :: string
  averageSlippage :: real
  maxSlippage :: real
  sampleCount :: nat
  lastUpdated :: int

record SlippageConfigDto =
  maxSlippagePercent :: real
  toleranceLevel :: "SlippageToleranceLevel option"
  enableDynamicSlippage :: "bool option"
  maxExecutionTimeMs :: "real option"

record SlippageEstimationDto =
  dto_symbol :: string
  dto_side :: side
  dto_quantity :: real
  dto_expectedPrice :: "real option"

datatype recommendation = Proceed | Caution | Delay

datatype reason_tag =
    HighEstimatedSlippage real
  | LowMarketLiquidity
  | ModerateMarketLiquidity
  | AboveHistoricalAverage

datatype reasoning =
    ConsiderDelaying "reason_tag list"
  | ProceedWithCaution "reason_tag list"
  | Favorable

record PriceRange =
  range_min :: real
  range_max :: real

record SlippageEstimateResponseDto =
  estimatedSlippagePercent :: real
  estimatedSlippageAmount :: real
  currentMarketPrice :: real
  estimatedPriceRange :: PriceRange
  liquidityScore :: real
  est_recommendation :: recommendation
  est_reasoning :: reasoning

subsection \<open>SlippageCalculatorService\<close>

text \<open>
  The loop of \<^verbatim>\<open>calculateExecutionPrice\<close> over the orders; its state is
  \<open>(remainingQuantity, totalCost, executedQuantity)\<close>, the \<^verbatim>\<open>break\<close> returns it.
\<close>

fun fillOrders :: "Order list \<Rightarrow> real \<times> real \<times> real \<Rightarrow> real \<times> real \<times> real" where
  "fillOrders [] s = s"
| "fillOrders (order # orders) (remainingQuantity, totalCost, executedQuantity) =
     (if remainingQuantity \<le> 0 then (remainingQuantity, totalCost, executedQuantity)
      else
        let fillQuantity = min remainingQuantity (quantity order)
        in fillOrders orders
             (remainingQuantity - fillQuantity,
              totalCost + fillQuantity * price order,
              executedQuantity + fillQuantity))"

definition calculateExecutionPrice :: "real \<Rightarrow> side \<Rightarrow> MarketDepth \<Rightarrow> real" where
  "calculateExecutionPrice qty sd depth =
     (let orders = (if sd = Buy then asks depth else bids depth) in
      case fillOrders orders (qty, 0, 0) of
        (remainingQuantity, totalCost, executedQuantity) \<Rightarrow>
          (case (if remainingQuantity > 0 \<and> length orders > 0
                 then (totalCost + remainingQuantity * price (last orders) * 1.02,
                       executedQuantity + remainingQuantity)
                 else (totalCost, executedQuantity)) of
             (totalCost', executedQuantity') \<Rightarrow>
               if executedQuantity' > 0 then totalCost' / executedQuantity' else 0))"

definition bestPrice :: "Order list \<Rightarrow> real" where
  \<comment> \<open>\<^verbatim>\<open>orders[0]?.price || 0\<close>\<close>
  "bestPrice orders = (case orders of [] \<Rightarrow> 0 | order # _ \<Rightarrow> price order)"

definition calculateLiquidityScore :: "MarketDepth \<Rightarrow> real \<Rightarrow> side \<Rightarrow> real" where
  "calculateLiquidityScore depth qty sd =
     (let orders = (if sd = Buy then asks depth else bids depth);
          topLevels = 10;
          availableLiquidity =
            foldl (\<lambda>sum order. sum + quantity order) 0 (take topLevels orders);
          bestBid = bestPrice (bids depth);
          bestAsk = bestPrice (asks depth);
          midPrice = (bestBid + bestAsk) / 2;
          spreadPercent =
            (if midPrice > 0 then ((bestAsk - bestBid) / midPrice) * 100 else 100);
          liquidityCoverage = min (availableLiquidity / qty) 1;
          spreadScore = max 0 (1 - spreadPercent / 2);
          depthScore = min (real (length orders) / 20) 1;
          score = liquidityCoverage * 0.5 + spreadScore * 0.3 + depthScore * 0.2
      in max 0 (min 1 score))"

definition calculatePriceRange ::
  "real \<Rightarrow> real \<Rightarrow> HistoricalSlippage option \<Rightarrow> PriceRange" where
  "calculatePriceRange expectedPrice estimatedSlippagePct historical =
     (let slippagePct =
            (case historical of
               Some h \<Rightarrow>
                 if averageSlippage h > estimatedSlippagePct then averageSlippage h
                 else estimatedSlippagePct
             | None \<Rightarrow> estimatedSlippagePct);
          safetyMargin = 1.2;
          rangePercent = slippagePct * safetyMargin
      in \<lparr>range_min = expectedPrice * (1 - rangePercent / 100),
          range_max = expectedPrice * (1 + rangePercent / 100)\<rparr>)"

definition generateRecommendation ::
  "real \<Rightarrow> real \<Rightarrow> HistoricalSlippage option \<Rightarrow> recommendation \<times> reasoning" where
  "generateRecommendation estimatedSlippage liqScore historical =
     (let reasons =
            (if estimatedSlippage > 1.0 then [HighEstimatedSlippage estimatedSlippage] else [])
            @ (if liqScore < 0.3 then [LowMarketLiquidity]
               else if liqScore < 0.6 then [ModerateMarketLiquidity] else [])
            @ (case historical of
                 Some h \<Rightarrow>
                   if estimatedSlippage > averageSlippage h * 2 then [AboveHistoricalAverage]
                   else []
               | None \<Rightarrow> [])
      in if estimatedSlippage > 2.0 \<or> liqScore < 0.3 then (Delay, ConsiderDelaying reasons)
         else if estimatedSlippage > 0.5 \<or> liqScore < 0.6
           then (Caution, ProceedWithCaution reasons)
         else (Proceed, Favorable))"

definition referencePrice :: "real option \<Rightarrow> real \<Rightarrow> real" where
  \<comment> \<open>\<^verbatim>\<open>estimationDto.expectedPrice || currentPrice\<close>\<close>
  "referencePrice expected currentPrice =
     (case expected of
        None \<Rightarrow> currentPrice
      | Some p \<Rightarrow> if p = 0 then currentPrice else p)"

definition estimateSlippage ::
  "(string \<rightharpoonup> HistoricalSlippage) \<Rightarrow> MarketData \<Rightarrow> SlippageEstimationDto \<Rightarrow>
   MarketDepth option \<Rightarrow> error + SlippageEstimateResponseDto" where
  "estimateSlippage historicalSlippage provider estimationDto marketDepth =
     (let currentPrice = getCurrentMarketPrice provider;
          depth = (case marketDepth of Some d \<Rightarrow> d | None \<Rightarrow> getMarketDepth provider);
          estimatedExecutionPrice =
            calculateExecutionPrice (dto_quantity estimationDto) (dto_side estimationDto) depth;
          expectedPrice = referencePrice (dto_expectedPrice estimationDto) currentPrice;
          slippageAmt = \<bar>estimatedExecutionPrice - expectedPrice\<bar>;
          slippagePct = (slippageAmt / expectedPrice) * 100;
          liqScore =
            calculateLiquidityScore depth (dto_quantity estimationDto) (dto_side estimationDto);
          historical = historicalSlippage (dto_symbol estimationDto);
          priceRange = calculatePriceRange expectedPrice slippagePct historical
      in case generateRecommendation slippagePct liqScore historical of
           (rec, why) \<Rightarrow>
             Inr \<lparr>estimatedSlippagePercent = slippagePct,
                  estimatedSlippageAmount = slippageAmt,
                  currentMarketPrice = currentPrice,
                  estimatedPriceRange = priceRange,
                  liquidityScore = liqScore,
                  est_recommendation = rec,
                  est_reasoning = why\<rparr>)"

record ActualSlippage =
  slippageAmount :: real
  slippagePercent :: real
  totalCost :: real

definition calculateActualSlippage :: "real \<Rightarrow> real \<Rightarrow> real \<Rightarrow> error + ActualSlippage" where
  "calculateActualSlippage expectedPrice actualPrice qty =
     (let slippageAmt = \<bar>actualPrice - expectedPrice\<bar>;
          slippagePct = (slippageAmt / expectedPrice) * 100;
          cost = slippageAmt * qty
      in Inr \<lparr>slippageAmount = slippageAmt, slippagePercent = slippagePct, totalCost = cost\<rparr>)"

definition updateHistoricalSlippage ::
  "(string \<rightharpoonup> HistoricalSlippage) \<Rightarrow> string \<Rightarrow> real \<Rightarrow> int \<Rightarrow>
   (string \<rightharpoonup> HistoricalSlippage)" where
  "updateHistoricalSlippage historicalSlippage symb actualSlippage now =
     (case historicalSlippage symb of
        Some existing \<Rightarrow>
          (let newCount = sampleCount existing + 1;
               newAverage =
                 (averageSlippage existing * real (sampleCount existing) + actualSlippage)
                 / real newCount;
               newMax = max (maxSlippage existing) actualSlippage
           in historicalSlippage(symb \<mapsto>
                \<lparr>hist_symbol = symb, averageSlippage = newAverage, maxSlippage = newMax,
                 sampleCount = newCount, lastUpdated = now\<rparr>))
      | None \<Rightarrow>
          historicalSlippage(symb \<mapsto>
            \<lparr>hist_symbol = symb, averageSlippage = actualSlippage,
             maxSlippage = actualSlippage, sampleCount = 1, lastUpdated = now\<rparr>))"

definition getToleranceForLevel :: "SlippageToleranceLevel \<Rightarrow> real" where
  "getToleranceForLevel level =
     (case level of STRICT \<Rightarrow> 0.1 | MODERATE \<Rightarrow> 0.5 | RELAXED \<Rightarrow> 1.0)"

definition calculateDynamicTolerance :: "real \<Rightarrow> real \<Rightarrow> real \<Rightarrow> real" where
  "calculateDynamicTolerance baseTolerancePercent liqScore volatility =
     (let liquidityAdjustment = (if liqScore < 0.5 then 1 - liqScore else 0);
          volatilityAdjustment = (if volatility > 2.0 then volatility / 10 else 0)
      in min (baseTolerancePercent * (1 + liquidityAdjustment + volatilityAdjustment))
             (baseTolerancePercent * 3))"

subsection \<open>SlippageProtectionService: data\<close>

record TradeExecutionContext =
  ctx_symbol :: string
  ctx_side :: side
  ctx_quantity :: real
  ctx_expectedPrice :: real
  ctx_timestamp :: int
  ctx_userId :: "string option"
  ctx_orderId :: "string option"

datatype protection_recommendation = proceed | caution | reject

datatype protection_reason =
    ExceedsMaximumAllowed real real
  | AllowedWithCaution
  | WithinAcceptableLimits

record SlippageProtectionResult =
  allowed :: bool
  reason :: protection_reason
  estimatedSlippage :: real
  maxAllowedSlippage :: real
  recommendation :: protection_recommendation

text \<open>
  \<^verbatim>\<open>symbolOverrides\<close> is a JavaScript \<^verbatim>\<open>Map\<close>, which keeps its keys in insertion order:
  an association list, written by \<^const>\<open>AList.update\<close> (a present key keeps its place, a new
  key goes to the end) and read by \<^const>\<open>map_of\<close>. The map is held by value: two users
  sharing one \<^verbatim>\<open>Map\<close> object are outside the model.
\<close>

record UserSlippagePreferences =
  userId :: string
  defaultConfig :: SlippageConfigDto
  symbolOverrides :: "(string \<times> SlippageConfigDto) list option"
  prefs_lastUpdated :: int

record SlippageReportDto =
  rep_expectedPrice :: real
  actualPrice :: real
  rep_slippageAmount :: real
  rep_slippagePercent :: real
  rep_quantity :: real
  totalSlippageCost :: real
  withinLimits :: bool
  timestamp :: int
  rep_symbol :: string
  rep_side :: side

text \<open>
  The state of the two services. Arrays of reports are mutable objects of the source
  (\<^verbatim>\<open>push\<close>, \<^verbatim>\<open>splice\<close> and \<^verbatim>\<open>sort\<close> change them in place), so they live in a store
  \<open>arrays\<close> from addresses to contents; \<open>slippageReports\<close> is the address held by the
  read-only field of that name, \<open>nextAddr\<close> the next free address. \<open>historicalSlippage\<close> is
  the map of the calculator service that the protection service holds.
\<close>

type_synonym addr = nat

record ServiceState =
  userPreferences :: "string \<rightharpoonup> UserSlippagePreferences"
  slippageReports :: addr
  arrays :: "addr \<Rightarrow> SlippageReportDto list"
  nextAddr :: addr
  historicalSlippage :: "string \<rightharpoonup> HistoricalSlippage"

definition DEFAULT_CONFIG :: SlippageConfigDto where
  "DEFAULT_CONFIG =
     \<lparr>maxSlippagePercent = 0.5, toleranceLevel = Some MODERATE,
      enableDynamicSlippage = Some True, maxExecutionTimeMs = Some 5000\<rparr>"

definition MAX_REPORTS_IN_MEMORY :: nat where
  "MAX_REPORTS_IN_MEMORY = 1000"

subsection \<open>SlippageProtectionService: configuration\<close>

definition getApplicableConfig ::
  "ServiceState \<Rightarrow> string option \<Rightarrow> string option \<Rightarrow> SlippageConfigDto option \<Rightarrow>
   SlippageConfigDto" where
  "getApplicableConfig st uid symb override =
     (case override of
        Some ov \<Rightarrow> ov
      | None \<Rightarrow>
          (case uid of
             None \<Rightarrow> DEFAULT_CONFIG
           | Some u \<Rightarrow>
               if u = [] then DEFAULT_CONFIG
               else
                 (case userPreferences st u of
                    None \<Rightarrow> DEFAULT_CONFIG
                  | Some userPrefs \<Rightarrow>
                      (case symb of
                         None \<Rightarrow> defaultConfig userPrefs
                       | Some s \<Rightarrow>
                           if s = [] then defaultConfig userPrefs
                           else
                             (case symbolOverrides userPrefs of
                                None \<Rightarrow> defaultConfig userPrefs
                              | Some overrides \<Rightarrow>
                                  (case map_of overrides s of
                                     Some c \<Rightarrow> c
                                   | None \<Rightarrow> defaultConfig userPrefs))))))"

definition calculateMaxAllowedSlippage :: "SlippageConfigDto \<Rightarrow> real \<Rightarrow> real" where
  "calculateMaxAllowedSlippage config liqScore =
     (if enableDynamicSlippage config = Some True
      then (let estimatedVolatility = 1.0
            in calculateDynamicTolerance (maxSlippagePercent config) liqScore
                 estimatedVolatility)
      else maxSlippagePercent config)"

definition generateProtectionResult ::
  "real \<Rightarrow> real \<Rightarrow> recommendation \<Rightarrow> bool \<Rightarrow> SlippageProtectionResult" where
  "generateProtectionResult estSlippage maxAllowed recm isWithinLimits =
     (if \<not> isWithinLimits \<or> recm = Delay then
        \<lparr>allowed = False, reason = ExceedsMaximumAllowed estSlippage maxAllowed,
         estimatedSlippage = estSlippage, maxAllowedSlippage = maxAllowed,
         recommendation = reject\<rparr>
      else if recm = Caution then
        \<lparr>allowed = True, reason = AllowedWithCaution,
         estimatedSlippage = estSlippage, maxAllowedSlippage = maxAllowed,
         recommendation = caution\<rparr>
      else
        \<lparr>allowed = True, reason = WithinAcceptableLimits,
         estimatedSlippage = estSlippage, maxAllowedSlippage = maxAllowed,
         recommendation = proceed\<rparr>)"

definition validateConfig :: "SlippageConfigDto \<Rightarrow> error + unit" where
  "validateConfig config =
     (if maxSlippagePercent config < 0 \<or> maxSlippagePercent config > 100
      then Inl (BadRequestException ''maxSlippagePercent must be between 0 and 100'')
      else if (case maxExecutionTimeMs config of
                 None \<Rightarrow> False
               | Some t \<Rightarrow> t \<noteq> 0 \<and> t < 100)
      then Inl (BadRequestException ''maxExecutionTimeMs must be at least 100ms'')
      else Inr ())"

text \<open>\<^verbatim>\<open>symbolOverrides.forEach((override) => this.validateConfig(override))\<close>\<close>

fun validateEach :: "SlippageConfigDto list \<Rightarrow> error + unit" where
  "validateEach [] = Inr ()"
| "validateEach (override # overrides) =
     (case validateConfig override of
        Inl e \<Rightarrow> Inl e
      | Inr _ \<Rightarrow> validateEach overrides)"

definition setUserPreferences ::
  "ServiceState \<Rightarrow> string \<Rightarrow> SlippageConfigDto \<Rightarrow>
   (string \<times> SlippageConfigDto) list option \<Rightarrow> int \<Rightarrow> error + ServiceState" where
  "setUserPreferences st uid config overrides now =
     (case validateConfig config of
        Inl e \<Rightarrow> Inl e
      | Inr _ \<Rightarrow>
          (case (case overrides of
                   None \<Rightarrow> Inr ()
                 | Some ovs \<Rightarrow> validateEach (map snd ovs)) of
             Inl e \<Rightarrow> Inl e
           | Inr _ \<Rightarrow>
               Inr (st\<lparr>userPreferences := (userPreferences st)(uid \<mapsto>
                      \<lparr>userId = uid, defaultConfig = config, symbolOverrides = overrides,
                       prefs_lastUpdated = now\<rparr>)\<rparr>)))"

definition getUserPreferences :: "ServiceState \<Rightarrow> string \<Rightarrow> UserSlippagePreferences option" where
  "getUserPreferences st uid = userPreferences st uid"

definition setSymbolOverride ::
  "ServiceState \<Rightarrow> string \<Rightarrow> string \<Rightarrow> SlippageConfigDto \<Rightarrow> int \<Rightarrow> error + ServiceState" where
  "setSymbolOverride st uid symb config now =
     (case validateConfig config of
        Inl e \<Rightarrow> Inl e
      | Inr _ \<Rightarrow>
          (let existing = userPreferences st uid;
               overrides =
                 (case existing of
                    None \<Rightarrow> []
                  | Some p \<Rightarrow> (case symbolOverrides p of None \<Rightarrow> [] | Some m \<Rightarrow> m));
               overrides' = AList.update symb config overrides
           in Inr (st\<lparr>userPreferences := (userPreferences st)(uid \<mapsto>
                     \<lparr>userId = uid,
                      defaultConfig =
                        (case existing of None \<Rightarrow> DEFAULT_CONFIG | Some p \<Rightarrow> defaultConfig p),
                      symbolOverrides = Some overrides',
                      prefs_lastUpdated = now\<rparr>)\<rparr>)))"

subsection \<open>SlippageProtectionService: validation and recording\<close>

definition validateTradeExecution ::
  "ServiceState \<Rightarrow> MarketData \<Rightarrow> TradeExecutionContext \<Rightarrow> SlippageConfigDto option \<Rightarrow>
   error + SlippageProtectionResult" where
  "validateTradeExecution st provider context userConfig =
     (let config =
            getApplicableConfig st (ctx_userId context) (Some (ctx_symbol context)) userConfig
      in case estimateSlippage (historicalSlippage st) provider
                \<lparr>dto_symbol = ctx_symbol context, dto_side = ctx_side context,
                 dto_quantity = ctx_quantity context,
                 dto_expectedPrice = Some (ctx_expectedPrice context)\<rparr> None of
           Inl e \<Rightarrow> Inl e
         | Inr estimation \<Rightarrow>
             (let maxAllowed =
                    calculateMaxAllowedSlippage config (liquidityScore estimation);
                  isWithinLimits = estimatedSlippagePercent estimation \<le> maxAllowed
              in Inr (generateProtectionResult (estimatedSlippagePercent estimation)
                        maxAllowed (est_recommendation estimation) isWithinLimits)))"

definition storeReport :: "ServiceState \<Rightarrow> SlippageReportDto \<Rightarrow> ServiceState" where
  "storeReport st report =
     (let pushed = arrays st (slippageReports st) @ [report];
          trimmed =
            (if length pushed > MAX_REPORTS_IN_MEMORY
             then (let toRemove = length pushed - MAX_REPORTS_IN_MEMORY
                   in drop toRemove pushed)
             else pushed)
      in st\<lparr>arrays := (arrays st)(slippageReports st := trimmed)\<rparr>)"

text \<open>
  \<^verbatim>\<open>recordSlippage\<close> reads the clock twice: \<open>now\<close> stamps the report, \<open>later\<close> the
  historical record. \<open>makeReport\<close> is the part of \<^verbatim>\<open>recordSlippage\<close> that resolves the
  limit and builds the report object.
\<close>

definition makeReport ::
  "ServiceState \<Rightarrow> TradeExecutionContext \<Rightarrow> real \<Rightarrow> int \<Rightarrow> ActualSlippage \<Rightarrow>
   SlippageReportDto" where
  "makeReport st context actualExecutionPrice now slippage =
     (let config =
            getApplicableConfig st (ctx_userId context) (Some (ctx_symbol context)) None;
          maxAllowed = maxSlippagePercent config
      in \<lparr>rep_expectedPrice = ctx_expectedPrice context,
          actualPrice = actualExecutionPrice,
          rep_slippageAmount = slippageAmount slippage,
          rep_slippagePercent = slippagePercent slippage,
          rep_quantity = ctx_quantity context,
          totalSlippageCost = totalCost slippage,
          withinLimits = (slippagePercent slippage \<le> maxAllowed),
          timestamp = now,
          rep_symbol = ctx_symbol context,
          rep_side = ctx_side context\<rparr>)"

definition recordSlippage ::
  "ServiceState \<Rightarrow> TradeExecutionContext \<Rightarrow> real \<Rightarrow> int \<Rightarrow> int \<Rightarrow>
   error + SlippageReportDto \<times> ServiceState" where
  "recordSlippage st context actualExecutionPrice now later =
     (case calculateActualSlippage (ctx_expectedPrice context) actualExecutionPrice
             (ctx_quantity context) of
        Inl e \<Rightarrow> Inl e
      | Inr slippage \<Rightarrow>
          (let report = makeReport st context actualExecutionPrice now slippage;
               st1 = storeReport st report;
               st2 = st1\<lparr>historicalSlippage :=
                        updateHistoricalSlippage (historicalSlippage st1) (ctx_symbol context)
                          (slippagePercent slippage) later\<rparr>
           in Inr (report, st2)))"

subsection \<open>SlippageProtectionService: queries\<close>

record ReportFilters =
  f_symbol :: "string option"
  startDate :: "int option"
  endDate :: "int option"
  onlyExceeded :: "bool option"
  limit :: "int option"

text \<open>
  Array operations on the store. \<open>allocArray\<close> is what \<^verbatim>\<open>[...xs]\<close>, \<^verbatim>\<open>filter\<close> and
  \<^verbatim>\<open>slice\<close> do with their result: a new array at a fresh address. \<open>sortInPlace\<close> is
  \<^verbatim>\<open>Array.prototype.sort\<close>, which is stable and writes into the array it is called on;
  the comparator \<^verbatim>\<open>b.timestamp - a.timestamp\<close> orders by descending timestamp.
  \<open>slice0\<close> is \<^verbatim>\<open>slice(0, n)\<close>, where a negative \<open>n\<close> counts from the end.
\<close>

definition allocArray :: "ServiceState \<Rightarrow> SlippageReportDto list \<Rightarrow> addr \<times> ServiceState" where
  "allocArray st xs =
     (nextAddr st, st\<lparr>arrays := (arrays st)(nextAddr st := xs), nextAddr := Suc (nextAddr st)\<rparr>)"

definition sortInPlace :: "ServiceState \<Rightarrow> addr \<Rightarrow> ServiceState" where
  "sortInPlace st a =
     st\<lparr>arrays := (arrays st)(a := sort_key (\<lambda>r. - timestamp r) (arrays st a))\<rparr>"

definition slice0 :: "int \<Rightarrow> 'a list \<Rightarrow> 'a list" where
  "slice0 n xs = (if n < 0 then take (nat (int (length xs) + n)) xs else take (nat n) xs)"

definition filterArray ::
  "ServiceState \<Rightarrow> addr \<Rightarrow> (SlippageReportDto \<Rightarrow> bool) \<Rightarrow> addr \<times> ServiceState" where
  "filterArray st a P = allocArray st (filter P (arrays st a))"

definition getSlippageReports ::
  "ServiceState \<Rightarrow> ReportFilters option \<Rightarrow> SlippageReportDto list \<times> ServiceState" where
  "getSlippageReports st filters =
     (case allocArray st (arrays st (slippageReports st)) of (reports0, st0) \<Rightarrow>
      case (case Option.bind filters f_symbol of
              None \<Rightarrow> (reports0, st0)
            | Some s \<Rightarrow>
                if s = [] then (reports0, st0)
                else filterArray st0 reports0 (\<lambda>r. rep_symbol r = s)) of (reports1, st1) \<Rightarrow>
      case (case Option.bind filters startDate of
              None \<Rightarrow> (reports1, st1)
            | Some d \<Rightarrow> filterArray st1 reports1 (\<lambda>r. timestamp r \<ge> d)) of (reports2, st2) \<Rightarrow>
      case (case Option.bind filters endDate of
              None \<Rightarrow> (reports2, st2)
            | Some d \<Rightarrow> filterArray st2 reports2 (\<lambda>r. timestamp r \<le> d)) of (reports3, st3) \<Rightarrow>
      case (if Option.bind filters onlyExceeded = Some True
            then filterArray st3 reports3 (\<lambda>r. \<not> withinLimits r)
            else (reports3, st3)) of (reports4, st4) \<Rightarrow>
      case sortInPlace st4 reports4 of st5 \<Rightarrow>
      case (case Option.bind filters limit of
              None \<Rightarrow> (reports4, st5)
            | Some n \<Rightarrow>
                if n = 0 then (reports4, st5)
                else allocArray st5 (slice0 n (arrays st5 reports4))) of (reports6, st6) \<Rightarrow>
        (arrays st6 reports6, st6))"

record SlippageStatistics =
  stat_averageSlippage :: real
  stat_maxSlippage :: real
  minSlippage :: real
  totalTrades :: nat
  tradesExceededLimits :: nat
  stat_totalSlippageCost :: real

text \<open>
  \<^verbatim>\<open>getSlippageStatistics\<close>. The cutoff \<^verbatim>\<open>setDate(getDate() - daysBack)\<close> is taken as
  \<open>daysBack\<close> days of 86400000 ms before \<open>now\<close> (a day of the local calendar can differ by a
  daylight-saving hour).
\<close>

definition getSlippageStatistics ::
  "ServiceState \<Rightarrow> string \<Rightarrow> int option \<Rightarrow> int \<Rightarrow> SlippageStatistics \<times> ServiceState" where
  "getSlippageStatistics st symb daysBack now =
     (let days = (case daysBack of None \<Rightarrow> 7 | Some d \<Rightarrow> d);
          cutoffDate = now - days * 86400000
      in case filterArray st (slippageReports st)
                (\<lambda>r. rep_symbol r = symb \<and> timestamp r \<ge> cutoffDate) of
           (relevantReports, st1) \<Rightarrow>
             if length (arrays st1 relevantReports) = 0 then
               (\<lparr>stat_averageSlippage = 0, stat_maxSlippage = 0, minSlippage = 0,
                 totalTrades = 0, tradesExceededLimits = 0, stat_totalSlippageCost = 0\<rparr>, st1)
             else
               (let slippages = map rep_slippagePercent (arrays st1 relevantReports);
                    total = foldl (\<lambda>a b. a + b) 0 slippages
                in case filterArray st1 relevantReports (\<lambda>r. \<not> withinLimits r) of
                     (exceeded, st2) \<Rightarrow>
                       (\<lparr>stat_averageSlippage = total / real (length slippages),
                         stat_maxSlippage = Max (set slippages),
                         minSlippage = Min (set slippages),
                         totalTrades = length (arrays st2 relevantReports),
                         tradesExceededLimits = length (arrays st2 exceeded),
                         stat_totalSlippageCost =
                           foldl (\<lambda>acc r. acc + totalSlippageCost r) 0
                             (arrays st2 relevantReports)\<rparr>, st2)))"

text \<open>
  \<open>preserved st st'\<close>: the engine state of \<open>st'\<close> is that of \<open>st\<close>: the same preferences,
  the same historical statistics, the same log array with the same contents in the same
  order. \<open>frame n st st'\<close>: moreover every array below the address \<open>n\<close> is unchanged.
\<close>

definition preserved :: "ServiceState \<Rightarrow> ServiceState \<Rightarrow> bool" where
  "preserved st st' \<longleftrightarrow>
     userPreferences st' = userPreferences st \<and>
     historicalSlippage st' = historicalSlippage st \<and>
     slippageReports st' = slippageReports st \<and>
     arrays st' (slippageReports st') = arrays st (slippageReports st)"

definition frame :: "addr \<Rightarrow> ServiceState \<Rightarrow> ServiceState \<Rightarrow> bool" where
  "frame n st st' \<longleftrightarrow>
     userPreferences st' = userPreferences st \<and>
     historicalSlippage st' = historicalSlippage st \<and>
     slippageReports st' = slippageReports st \<and>
     (\<forall>a \<in> {..<n}. arrays st' a = arrays st a) \<and>
     n \<le> nextAddr st'"

subsection \<open>TradingService: order splitting\<close>

datatype split_reason =
    FullOrderWithinLimits
  | FullOrderWouldExceed real real

record SplitResult =
  shouldSplit :: bool
  split_reason :: split_reason
  recommendedChunkSize :: "real option"
  estimatedChunks :: "int option"

text \<open>
  The binary search of \<^verbatim>\<open>shouldSplitOrder\<close>. Each round asks the calculator for a new
  estimate, which asks the provider again: \<open>provider k\<close> is the provider's answer to the
  \<open>k\<close>-th estimation call of one \<^verbatim>\<open>shouldSplitOrder\<close>, and \<open>k\<close> counts the calls made
  so far. The \<^verbatim>\<open>while\<close> loop need not end on every state, so not returning is
  \<open>None\<close>.
\<close>

partial_function (option) chunkSearch ::
  "(string \<rightharpoonup> HistoricalSlippage) \<Rightarrow> (nat \<Rightarrow> MarketData) \<Rightarrow> string \<Rightarrow> side \<Rightarrow> real \<Rightarrow> real \<Rightarrow>
   nat \<Rightarrow> real \<Rightarrow> real \<Rightarrow> real \<Rightarrow> (error + real) option" where
  "chunkSearch hist provider symb sd totalQuantity maxPct k low high optimalChunkSize =
     (if high - low > totalQuantity * 0.05 then
        (let mid = (low + high) / 2
         in case estimateSlippage hist (provider k)
                   \<lparr>dto_symbol = symb, dto_side = sd, dto_quantity = mid,
                    dto_expectedPrice = None\<rparr> None of
              Inl e \<Rightarrow> Some (Inl e)
            | Inr estimate \<Rightarrow>
                if estimatedSlippagePercent estimate \<le> maxPct
                then chunkSearch hist provider symb sd totalQuantity maxPct (Suc k)
                       mid high mid
                else chunkSearch hist provider symb sd totalQuantity maxPct (Suc k)
                       low mid optimalChunkSize)
      else Some (Inr optimalChunkSize))"

definition shouldSplitOrder ::
  "(string \<rightharpoonup> HistoricalSlippage) \<Rightarrow> (nat \<Rightarrow> MarketData) \<Rightarrow> string \<Rightarrow> side \<Rightarrow> real \<Rightarrow>
   real option \<Rightarrow> (error + SplitResult) option" where
  "shouldSplitOrder hist provider symb sd totalQuantity maxSlippagePct =
     (let maxPct = (case maxSlippagePct of None \<Rightarrow> 0.5 | Some m \<Rightarrow> m)
      in case estimateSlippage hist (provider 0)
                \<lparr>dto_symbol = symb, dto_side = sd, dto_quantity = totalQuantity,
                 dto_expectedPrice = None\<rparr> None of
           Inl e \<Rightarrow> Some (Inl e)
         | Inr fullOrderEstimate \<Rightarrow>
             if estimatedSlippagePercent fullOrderEstimate \<le> maxPct then
               Some (Inr \<lparr>shouldSplit = False, split_reason = FullOrderWithinLimits,
                          recommendedChunkSize = None, estimatedChunks = None\<rparr>)
             else
               (case chunkSearch hist provider symb sd totalQuantity maxPct 1
                       (totalQuantity * 0.1) totalQuantity totalQuantity of
                  None \<Rightarrow> None
                | Some (Inl e) \<Rightarrow> Some (Inl e)
                | Some (Inr optimalChunkSize) \<Rightarrow>
                    (let chunks = \<lceil>totalQuantity / optimalChunkSize\<rceil>
                     in Some (Inr \<lparr>shouldSplit = True,
                                   split_reason =
                                     FullOrderWouldExceed
                                       (estimatedSlippagePercent fullOrderEstimate) maxPct,
                                   recommendedChunkSize = Some optimalChunkSize,
                                   estimatedChunks = Some chunks\<rparr>))))"

subsection \<open>The projected execution price as the specification words it\<close>

text \<open>
  Written from the specification, not from the source, to be compared with
  \<^const>\<open>calculateExecutionPrice\<close>: walk the levels in order with
  \<open>fillQty = min(remaining, level.qty)\<close> and \<open>cost += fillQty * level.price\<close> until
  \<open>remaining = 0\<close> or the levels are exhausted; if they are exhausted with
  \<open>remaining > 0\<close> and there is a level, add the remainder at \<open>1.02\<close> times the worst
  (last) price; the result is \<open>cost / filled\<close>, and \<open>0\<close> when nothing is filled.
\<close>

fun spec_walk :: "Order list \<Rightarrow> real \<times> real \<times> real \<Rightarrow> real \<times> real \<times> real" where
  "spec_walk [] s = s"
| "spec_walk (level # levels) (remaining, cost, filled) =
     (if remaining = 0 then (remaining, cost, filled)
      else
        let fillQty = min remaining (quantity level)
        in spec_walk levels (remaining - fillQty, cost + fillQty * price level, filled + fillQty))"

definition spec_executionPrice :: "real \<Rightarrow> side \<Rightarrow> MarketDepth \<Rightarrow> real" where
  "spec_executionPrice qty sd book =
     (let levels = (case sd of Buy \<Rightarrow> asks book | Sell \<Rightarrow> bids book) in
      case spec_walk levels (qty, 0, 0) of
        (remaining, cost, filled) \<Rightarrow>
          (let extrapolate = (remaining > 0 \<and> levels \<noteq> []);
               cost' = (if extrapolate then cost + remaining * (1.02 * price (last levels))
                        else cost);
               filled' = (if extrapolate then filled + remaining else filled)
           in if filled' = 0 then 0 else cost' / filled'))"

subsection \<open>Sequences of calls\<close>

text \<open>
  A sequence of \<^verbatim>\<open>recordSlippage\<close> calls, each with its context, its actual execution
  price and its two clock readings; the reports the calls return are collected in call
  order. A sequence of \<^verbatim>\<open>updateHistoricalSlippage\<close> calls for one symbol, each with its
  value and its clock reading.
\<close>

fun recordAll ::
  "ServiceState \<Rightarrow> (TradeExecutionContext \<times> real \<times> int \<times> int) list \<Rightarrow>
   error + SlippageReportDto list \<times> ServiceState" where
  "recordAll st [] = Inr ([], st)"
| "recordAll st ((context, actualExecutionPrice, now, later) # calls) =
     (case recordSlippage st context actualExecutionPrice now later of
        Inl e \<Rightarrow> Inl e
      | Inr (report, st1) \<Rightarrow>
          (case recordAll st1 calls of
             Inl e \<Rightarrow> Inl e
           | Inr (reports, st2) \<Rightarrow> Inr (report # reports, st2)))"

definition updateSeq ::
  "(string \<rightharpoonup> HistoricalSlippage) \<Rightarrow> string \<Rightarrow> (real \<times> int) list \<Rightarrow>
   (string \<rightharpoonup> HistoricalSlippage)" where
  "updateSeq hist symb updates =
     foldl (\<lambda>h (actualSlippage, now). updateHistoricalSlippage h symb actualSlippage now)
       hist updates"

subsection \<open>Example data\<close>

definition example_book :: MarketDepth where
  "example_book =
     \<lparr>bids = [\<lparr>price = 99, quantity = 5\<rparr>],
      asks = [\<lparr>price = 100, quantity = 1\<rparr>, \<lparr>price = 101, quantity = 1\<rparr>],
      depth_timestamp = 0\<rparr>"

definition example_provider :: MarketData where
  "example_provider = \<lparr>getCurrentMarketPrice = 100, getMarketDepth = example_book\<rparr>"

definition example_state :: ServiceState where
  "example_state =
     \<lparr>userPreferences = Map.empty, slippageReports = 0, arrays = (\<lambda>_. []), nextAddr = 1,
      historicalSlippage = Map.empty\<rparr>"

definition example_context :: TradeExecutionContext where
  "example_context =
     \<lparr>ctx_symbol = ''BTC/USD'', ctx_side = Buy, ctx_quantity = 1, ctx_expectedPrice = 100,
      ctx_timestamp = 0, ctx_userId = None, ctx_orderId = None\<rparr>"

definition example_report :: "int \<Rightarrow> SlippageReportDto" where
  "example_report t =
     \<lparr>rep_expectedPrice = 100, actualPrice = 101, rep_slippageAmount = 1,
      rep_slippagePercent = 1, rep_quantity = 1, totalSlippageCost = 1, withinLimits = False,
      timestamp = t, rep_symbol = ''BTC/USD'', rep_side = Buy\<rparr>"

definition example_log_state :: ServiceState where
  "example_log_state =
     \<lparr>userPreferences = Map.empty, slippageReports = 0,
      arrays = (\<lambda>_. [])(0 := [example_report 1, example_report 2]), nextAddr = 1,
      historicalSlippage = Map.empty\<rparr>"

section \<open>Verification\<close>

subsection \<open>Evaluating the estimate on the example book\<close>

lemma calculateExecutionPrice_example_1:
  "calculateExecutionPrice 1 Buy example_book = 100"
  by (simp add: calculateExecutionPrice_def example_book_def Let_def)

lemma calculateExecutionPrice_example_3:
  "calculateExecutionPrice 3 Buy example_book = 5067 / 50"
  by (simp add: calculateExecutionPrice_def example_book_def Let_def)

lemma calculateLiquidityScore_example_1:
  "calculateLiquidityScore example_book 1 Buy = 6659 / 9950"
  by (simp add: calculateLiquidityScore_def bestPrice_def example_book_def Let_def)

lemma calculateLiquidityScore_example_3:
  "calculateLiquidityScore example_book 3 Buy = 7501 / 14925"
  by (simp add: calculateLiquidityScore_def bestPrice_def example_book_def Let_def)

lemma estimateSlippage_example_1:
  "estimateSlippage Map.empty example_provider
     \<lparr>dto_symbol = ''BTC/USD'', dto_side = Buy, dto_quantity = 1,
      dto_expectedPrice = Some 100\<rparr> None =
   Inr \<lparr>estimatedSlippagePercent = 0, estimatedSlippageAmount = 0,
        currentMarketPrice = 100,
        estimatedPriceRange = \<lparr>range_min = 100, range_max = 100\<rparr>,
        liquidityScore = 6659 / 9950, est_recommendation = Proceed,
        est_reasoning = Favorable\<rparr>"
  by (simp add: estimateSlippage_def example_provider_def calculateExecutionPrice_example_1
      calculateLiquidityScore_example_1 referencePrice_def calculatePriceRange_def
      generateRecommendation_def Let_def)

lemma estimateSlippage_example_3:
  "estimateSlippage Map.empty example_provider
     \<lparr>dto_symbol = ''BTC/USD'', dto_side = Buy, dto_quantity = 3,
      dto_expectedPrice = None\<rparr> None =
   Inr \<lparr>estimatedSlippagePercent = 67 / 50, estimatedSlippageAmount = 67 / 50,
        currentMarketPrice = 100,
        estimatedPriceRange = \<lparr>range_min = 12299 / 125, range_max = 12701 / 125\<rparr>,
        liquidityScore = 7501 / 14925, est_recommendation = Caution,
        est_reasoning =
          ProceedWithCaution [HighEstimatedSlippage (67 / 50), ModerateMarketLiquidity]\<rparr>"
  by (simp add: estimateSlippage_def example_provider_def calculateExecutionPrice_example_3
      calculateLiquidityScore_example_3 referencePrice_def calculatePriceRange_def
      generateRecommendation_def Let_def)

subsection \<open>The decision of validateTradeExecution\<close>

text \<open>
  C1. Whenever the engine returns an estimate, \<^verbatim>\<open>validateTradeExecution\<close> returns a decision
  that carries the estimated percentage and the resolved threshold \<open>maxAllowed\<close>, and that
  is: not allowed with recommendation \<open>reject\<close> if the estimated percentage exceeds
  \<open>maxAllowed\<close> or the engine recommends \<open>Delay\<close>; otherwise allowed with \<open>caution\<close> if the
  engine recommends \<open>Caution\<close>; otherwise allowed with \<open>proceed\<close>.
\<close>

theorem validateTradeExecution_decision:
  assumes "estimateSlippage (historicalSlippage st) provider
             \<lparr>dto_symbol = ctx_symbol context, dto_side = ctx_side context,
              dto_quantity = ctx_quantity context,
              dto_expectedPrice = Some (ctx_expectedPrice context)\<rparr> None = Inr estimation"
  shows "\<exists>r. validateTradeExecution st provider context userConfig = Inr r \<and>
     (let maxAllowed =
            calculateMaxAllowedSlippage
              (getApplicableConfig st (ctx_userId context) (Some (ctx_symbol context))
                 userConfig)
              (liquidityScore estimation)
      in estimatedSlippage r = estimatedSlippagePercent estimation \<and>
         maxAllowedSlippage r = maxAllowed \<and>
         (if estimatedSlippagePercent estimation > maxAllowed \<or>
             est_recommendation estimation = Delay
          then \<not> allowed r \<and> recommendation r = reject
          else if est_recommendation estimation = Caution
            then allowed r \<and> recommendation r = caution
            else allowed r \<and> recommendation r = proceed))"
  using assms
  by (simp add: validateTradeExecution_def generateProtectionResult_def Let_def not_le)

theorem validateTradeExecution_decision_witness:
  "\<exists>r. validateTradeExecution example_state example_provider example_context None = Inr r \<and>
       estimatedSlippage r = 0 \<and> maxAllowedSlippage r = 1 / 2 \<and>
       allowed r \<and> recommendation r = proceed"
proof -
  have est: "estimateSlippage (historicalSlippage example_state) example_provider
      \<lparr>dto_symbol = ctx_symbol example_context, dto_side = ctx_side example_context,
       dto_quantity = ctx_quantity example_context,
       dto_expectedPrice = Some (ctx_expectedPrice example_context)\<rparr> None =
    Inr \<lparr>estimatedSlippagePercent = 0, estimatedSlippageAmount = 0,
        currentMarketPrice = 100,
        estimatedPriceRange = \<lparr>range_min = 100, range_max = 100\<rparr>,
        liquidityScore = 6659 / 9950, est_recommendation = Proceed,
        est_reasoning = Favorable\<rparr>"
    by (simp add: example_state_def example_context_def estimateSlippage_example_1)
  have cfg: "getApplicableConfig example_state (ctx_userId example_context)
      (Some (ctx_symbol example_context)) None = DEFAULT_CONFIG"
    by (simp add: getApplicableConfig_def example_context_def)
  have mx: "calculateMaxAllowedSlippage DEFAULT_CONFIG (6659 / 9950) = 1 / 2"
    by (simp add: calculateMaxAllowedSlippage_def DEFAULT_CONFIG_def
        calculateDynamicTolerance_def Let_def)
  show ?thesis
    using validateTradeExecution_decision [OF est, of None]
    by (simp add: cfg mx Let_def)
qed

subsection \<open>Non-positive prices are not rejected\<close>

text \<open>
  C2, as stated, at the expected price \<open>-1\<close>: \<^verbatim>\<open>calculateActualSlippage\<close> and
  \<^verbatim>\<open>estimateSlippage\<close> do not fail, they return a result with a negative percentage.
\<close>

theorem nonpositive_price_not_rejected:
  "calculateActualSlippage (- 1) 1 1 =
     Inr \<lparr>slippageAmount = 2, slippagePercent = - 200, totalCost = 2\<rparr> \<and>
   estimateSlippage Map.empty example_provider
     \<lparr>dto_symbol = ''BTC/USD'', dto_side = Buy, dto_quantity = 3,
      dto_expectedPrice = Some (- 1)\<rparr> None =
     Inr \<lparr>estimatedSlippagePercent = - 10234, estimatedSlippageAmount = 5117 / 50,
          currentMarketPrice = 100,
          estimatedPriceRange = \<lparr>range_min = - (15476 / 125), range_max = 15226 / 125\<rparr>,
          liquidityScore = 7501 / 14925, est_recommendation = Caution,
          est_reasoning = ProceedWithCaution [ModerateMarketLiquidity]\<rparr>"
  by (simp add: calculateActualSlippage_def estimateSlippage_def example_provider_def
      calculateExecutionPrice_example_3 calculateLiquidityScore_example_3 referencePrice_def
      calculatePriceRange_def generateRecommendation_def Let_def)

text \<open>
  C2, amended. Neither call has a rejection: for every expected price
  \<^verbatim>\<open>calculateActualSlippage\<close> returns the amount \<open>|actual - expected|\<close> and the cost
  \<open>amount * quantity\<close>, and for a negative expected price the percentage
  \<open>amount / expected * 100\<close>, which is then at most \<open>0\<close>; for every request
  \<^verbatim>\<open>estimateSlippage\<close> returns an estimate, whose percentage is at most \<open>0\<close> when the
  reference price is negative. An expected price of \<open>0\<close> in the request counts as absent:
  the reference price is then the current market price.
\<close>

theorem price_never_rejected:
  "(\<exists>r. calculateActualSlippage e a q = Inr r \<and>
        slippageAmount r = \<bar>a - e\<bar> \<and> totalCost r = \<bar>a - e\<bar> * q \<and>
        (e < 0 \<longrightarrow> slippagePercent r = \<bar>a - e\<bar> / e * 100 \<and> slippagePercent r \<le> 0)) \<and>
   (\<exists>est. estimateSlippage hist provider dto marketDepth = Inr est \<and>
        (referencePrice (dto_expectedPrice dto) (getCurrentMarketPrice provider) < 0
           \<longrightarrow> estimatedSlippagePercent est \<le> 0)) \<and>
   referencePrice (Some 0) c = c \<and> referencePrice None c = c"
  by (auto simp add: calculateActualSlippage_def estimateSlippage_def referencePrice_def Let_def
      divide_le_0_iff split: prod.splits)

theorem price_never_rejected_witness:
  "(\<exists>r. calculateActualSlippage (- 1) 1 1 = Inr r \<and> slippagePercent r = - 200) \<and>
   (\<exists>est. estimateSlippage Map.empty example_provider
        \<lparr>dto_symbol = ''BTC/USD'', dto_side = Buy, dto_quantity = 3,
         dto_expectedPrice = Some (- 1)\<rparr> None = Inr est \<and>
        estimatedSlippagePercent est \<le> 0)"
  using price_never_rejected [of "- 1" 1 1 Map.empty example_provider
      "\<lparr>dto_symbol = ''BTC/USD'', dto_side = Buy, dto_quantity = 3,
        dto_expectedPrice = Some (- 1)\<rparr>" None]
  by (auto simp add: referencePrice_def)

subsection \<open>The cap of the dynamic tolerance\<close>

text \<open>
  C7, as stated, at the base \<open>-1\<close> with liquidity \<open>1\<close> and volatility \<open>1\<close>: the result is
  \<open>-3\<close>, neither equal to the base nor above it.
\<close>

theorem calculateDynamicTolerance_negative_base:
  "calculateDynamicTolerance (- 1) 1 1 = - 3 \<and>
   calculateDynamicTolerance (- 1) 1 1 \<noteq> - 1 \<and>
   calculateDynamicTolerance (- 1) 1 1 < - 1"
  by (simp add: calculateDynamicTolerance_def Let_def)

text \<open>
  C7, amended. For all inputs the dynamic tolerance is at most three times the base. For
  a base that is not negative, it equals the base whenever the liquidity is at least
  \<open>0.5\<close> and the volatility at most \<open>2.0\<close>, and it is never below the base.
\<close>

theorem calculateDynamicTolerance_bounds:
  "calculateDynamicTolerance b l v \<le> b * 3 \<and>
   (0 \<le> b \<longrightarrow>
      (0.5 \<le> l \<and> v \<le> 2.0 \<longrightarrow> calculateDynamicTolerance b l v = b) \<and>
      b \<le> calculateDynamicTolerance b l v)"
  by (auto simp add: calculateDynamicTolerance_def Let_def min_def mult_le_cancel_left
      algebra_simps)

theorem calculateDynamicTolerance_bounds_witness:
  "(0 :: real) \<le> 1 / 2 \<and> (0.5 :: real) \<le> 9 / 10 \<and> (1 / 2 :: real) \<le> 2.0 \<and>
   calculateDynamicTolerance (1 / 2) (9 / 10) (1 / 2) \<le> 1 / 2 * 3 \<and>
   calculateDynamicTolerance (1 / 2) (9 / 10) (1 / 2) = 1 / 2 \<and>
   1 / 2 \<le> calculateDynamicTolerance (1 / 2) (9 / 10) (1 / 2)"
  using calculateDynamicTolerance_bounds [of "1 / 2" "9 / 10" "1 / 2"]
  by simp

subsection \<open>An empty opposite side\<close>

text \<open>
  C9. For a request with a positive quantity and a positive reference price, on a book
  whose side opposite the trade (asks for a buy, bids for a sell) is empty, the projected
  execution price is \<open>0\<close>, the estimate is returned, its percentage is exactly \<open>100\<close> and
  its recommendation is \<open>Delay\<close>.
\<close>

theorem empty_side_estimate:
  assumes "0 < dto_quantity dto"
    and "0 < referencePrice (dto_expectedPrice dto) (getCurrentMarketPrice provider)"
    and "depth = (case marketDepth of Some d \<Rightarrow> d | None \<Rightarrow> getMarketDepth provider)"
    and "(case dto_side dto of Buy \<Rightarrow> asks depth | Sell \<Rightarrow> bids depth) = []"
  shows "calculateExecutionPrice (dto_quantity dto) (dto_side dto) depth = 0 \<and>
    (\<exists>est. estimateSlippage hist provider dto marketDepth = Inr est \<and>
       estimatedSlippagePercent est = 100 \<and> est_recommendation est = Delay)"
proof -
  let ?ref = "referencePrice (dto_expectedPrice dto) (getCurrentMarketPrice provider)"
  have exec: "calculateExecutionPrice (dto_quantity dto) (dto_side dto) depth = 0"
    using assms(4) by (cases "dto_side dto") (simp_all add: calculateExecutionPrice_def)
  have pct: "\<bar>0 - ?ref\<bar> / ?ref * 100 = 100"
    using assms(2) by simp
  have delay: "fst (generateRecommendation 100 l h) = Delay" for l h
    by (simp add: generateRecommendation_def Let_def)
  show ?thesis
    using exec pct assms(3)
    by (auto simp add: estimateSlippage_def Let_def split: prod.splits)
       (metis fst_conv delay)
qed

theorem empty_side_estimate_witness:
  "calculateExecutionPrice 2 Buy \<lparr>bids = [\<lparr>price = 99, quantity = 5\<rparr>], asks = [],
     depth_timestamp = 0\<rparr> = 0 \<and>
   (\<exists>est. estimateSlippage Map.empty example_provider
        \<lparr>dto_symbol = ''BTC/USD'', dto_side = Buy, dto_quantity = 2,
         dto_expectedPrice = Some 50\<rparr>
        (Some \<lparr>bids = [\<lparr>price = 99, quantity = 5\<rparr>], asks = [], depth_timestamp = 0\<rparr>)
        = Inr est \<and>
      estimatedSlippagePercent est = 100 \<and> est_recommendation est = Delay)"
  using empty_side_estimate [of
      "\<lparr>dto_symbol = ''BTC/USD'', dto_side = Buy, dto_quantity = 2,
        dto_expectedPrice = Some 50\<rparr>"
      example_provider
      "\<lparr>bids = [\<lparr>price = 99, quantity = 5\<rparr>], asks = [], depth_timestamp = 0\<rparr>"
      "Some \<lparr>bids = [\<lparr>price = 99, quantity = 5\<rparr>], asks = [], depth_timestamp = 0\<rparr>"
      Map.empty]
  by (simp add: referencePrice_def)

subsection \<open>The projected execution price\<close>

lemma fillOrders_spec_walk:
  "0 \<le> r \<Longrightarrow> fillOrders orders (r, c, f) = spec_walk orders (r, c, f)"
proof (induction orders arbitrary: r c f)
  case Nil
  then show ?case by simp
next
  case (Cons order orders)
  show ?case
  proof (cases "r = 0")
    case True
    then show ?thesis by simp
  next
    case False
    with Cons.prems have "0 < r" by simp
    moreover have "0 \<le> r - min r (quantity order)" by simp
    ultimately show ?thesis
      using Cons.IH [of "r - min r (quantity order)"] by (simp add: Let_def)
  qed
qed

lemma spec_walk_conserves:
  "0 \<le> r \<Longrightarrow> spec_walk levels (r, c, f) = (r', c', f') \<Longrightarrow> 0 \<le> r' \<and> f' + r' = f + r"
proof (induction levels arbitrary: r c f)
  case Nil
  then show ?case by simp
next
  case (Cons level levels)
  show ?case
  proof (cases "r = 0")
    case True
    with Cons.prems show ?thesis by simp
  next
    case False
    have "0 \<le> r - min r (quantity level)" by simp
    from Cons.IH [OF this, of "c + min r (quantity level) * price level" "f + min r (quantity level)"]
      Cons.prems(2) False
    show ?thesis by (simp add: Let_def)
  qed
qed

lemma fillOrders_nonpositive: "r \<le> 0 \<Longrightarrow> fillOrders orders (r, c, f) = (r, c, f)"
  by (cases orders) simp_all

text \<open>
  C4, as stated, at the quantity \<open>-1\<close>: the walk of the specification fills \<open>-1\<close> of the
  first level and divides its cost by it, the source stops before the first level and
  returns \<open>0\<close>.
\<close>

theorem calculateExecutionPrice_negative_quantity:
  "calculateExecutionPrice (- 1) Buy example_book = 0 \<and>
   spec_executionPrice (- 1) Buy example_book = 100"
  by (simp add: calculateExecutionPrice_def spec_executionPrice_def example_book_def Let_def)

text \<open>
  C4, amended. For every quantity that is not negative, every side and every book the
  projected execution price is the result of the walk as the specification words it; for a
  negative quantity no level is walked and the price is \<open>0\<close>.
\<close>

theorem calculateExecutionPrice_walk:
  "calculateExecutionPrice q sd book =
     (if q < 0 then 0 else spec_executionPrice q sd book)"
proof (cases "q < 0")
  case True
  then show ?thesis
    by (simp add: calculateExecutionPrice_def fillOrders_nonpositive Let_def)
next
  case False
  then have q: "0 \<le> q" by simp
  define levels where "levels = (if sd = Buy then asks book else bids book)"
  have lv: "(case sd of Buy \<Rightarrow> asks book | Sell \<Rightarrow> bids book) = levels"
    by (cases sd) (simp_all add: levels_def)
  obtain r c f where w: "spec_walk levels (q, 0, 0) = (r, c, f)"
    by (cases "spec_walk levels (q, 0, 0)") auto
  from spec_walk_conserves [OF q w] have r: "0 \<le> r" and fr: "f + r = q" by simp_all
  have fo: "fillOrders levels (q, 0, 0) = (r, c, f)"
    using fillOrders_spec_walk [OF q] w by simp
  have f0: "levels = [] \<Longrightarrow> f = 0" using w by simp
  show ?thesis
  proof (cases "r > 0 \<and> levels \<noteq> []")
    case True
    then show ?thesis
      using False q fr r fo w lv
      by (simp add: calculateExecutionPrice_def spec_executionPrice_def Let_def
          levels_def [symmetric] algebra_simps)
  next
    case False
    then have "f \<ge> 0" using f0 fr r q by (cases "levels = []") auto
    then show ?thesis
      using False q fr r fo w lv \<open>\<not> q < 0\<close>
      by (auto simp add: calculateExecutionPrice_def spec_executionPrice_def Let_def
          levels_def [symmetric])
  qed
qed

theorem calculateExecutionPrice_walk_witness:
  "calculateExecutionPrice 3 Buy example_book = spec_executionPrice 3 Buy example_book \<and>
   spec_executionPrice 3 Buy example_book = 5067 / 50"
  using calculateExecutionPrice_walk [of 3 Buy example_book]
  by (simp add: calculateExecutionPrice_example_3)

subsection \<open>The bounded report log\<close>

lemma drop_overflow_append:
  "drop (length (drop (length xs - m) xs @ ys) - m) (drop (length xs - m) xs @ ys) =
   drop (length (xs @ ys) - m) (xs @ (ys :: 'a list))"
  by (cases "length xs \<le> m") (auto simp add: add.commute)

lemma storeReport_log:
  "arrays (storeReport st report) (slippageReports st) =
     drop (length (arrays st (slippageReports st) @ [report]) - MAX_REPORTS_IN_MEMORY)
       (arrays st (slippageReports st) @ [report])"
  by (simp add: storeReport_def Let_def)

lemma storeReport_fields:
  "slippageReports (storeReport st report) = slippageReports st"
  "userPreferences (storeReport st report) = userPreferences st"
  "historicalSlippage (storeReport st report) = historicalSlippage st"
  by (simp_all add: storeReport_def Let_def)

lemma recordSlippage_log:
  "\<exists>report st1. recordSlippage st context actual now later = Inr (report, st1) \<and>
     slippageReports st1 = slippageReports st \<and>
     arrays st1 (slippageReports st1) =
       drop (length (arrays st (slippageReports st) @ [report]) - MAX_REPORTS_IN_MEMORY)
         (arrays st (slippageReports st) @ [report])"
  by (simp add: recordSlippage_def calculateActualSlippage_def Let_def storeReport_log
      storeReport_fields)

lemma recordAll_log:
  "length (arrays st (slippageReports st)) \<le> MAX_REPORTS_IN_MEMORY \<Longrightarrow>
   \<exists>reports st'. recordAll st calls = Inr (reports, st') \<and>
     length reports = length calls \<and>
     slippageReports st' = slippageReports st \<and>
     arrays st' (slippageReports st') =
       drop (length (arrays st (slippageReports st) @ reports) - MAX_REPORTS_IN_MEMORY)
         (arrays st (slippageReports st) @ reports)"
proof (induction calls arbitrary: st)
  case Nil
  then show ?case by simp
next
  case (Cons call calls)
  obtain ctx actual now later where call: "call = (ctx, actual, now, later)"
    by (cases call) auto
  obtain report st1 where
    r: "recordSlippage st ctx actual now later = Inr (report, st1)" and
    a: "slippageReports st1 = slippageReports st" and
    l: "arrays st1 (slippageReports st1) =
       drop (length (arrays st (slippageReports st) @ [report]) - MAX_REPORTS_IN_MEMORY)
         (arrays st (slippageReports st) @ [report])"
    using recordSlippage_log by blast
  have "length (arrays st1 (slippageReports st1)) \<le> MAX_REPORTS_IN_MEMORY"
    by (simp add: l)
  then obtain reports st' where
    ra: "recordAll st1 calls = Inr (reports, st')" and
    n: "length reports = length calls" and
    a': "slippageReports st' = slippageReports st1" and
    l': "arrays st' (slippageReports st') =
       drop (length (arrays st1 (slippageReports st1) @ reports) - MAX_REPORTS_IN_MEMORY)
         (arrays st1 (slippageReports st1) @ reports)"
    using Cons.IH [of st1] by blast
  have "arrays st' (slippageReports st') =
       drop (length (arrays st (slippageReports st) @ report # reports) - MAX_REPORTS_IN_MEMORY)
         (arrays st (slippageReports st) @ report # reports)"
    using drop_overflow_append [of "arrays st (slippageReports st) @ [report]"
        MAX_REPORTS_IN_MEMORY reports]
    by (simp add: l' l)
  then show ?case
    using call r ra n a a' by simp
qed

text \<open>
  C3. Any sequence of \<^verbatim>\<open>recordSlippage\<close> calls on a state with an empty report log
  succeeds, and afterwards the log holds the reports of the calls, in call order, without
  the first \<open>n - MAX_REPORTS_IN_MEMORY\<close> of them when there are \<open>n\<close> calls: exactly the most
  recent \<open>MAX_REPORTS_IN_MEMORY\<close> (1000) reports after \<open>1000 + k\<close> calls, the \<open>k\<close> oldest
  evicted. The log never exceeds its capacity.
\<close>

theorem report_log_bounded_fifo:
  assumes "arrays st (slippageReports st) = []"
  shows "\<exists>reports st'. recordAll st calls = Inr (reports, st') \<and>
     length reports = length calls \<and>
     arrays st' (slippageReports st') = drop (length reports - MAX_REPORTS_IN_MEMORY) reports \<and>
     length (arrays st' (slippageReports st')) \<le> MAX_REPORTS_IN_MEMORY"
proof -
  obtain reports st' where
    ra: "recordAll st calls = Inr (reports, st')" and
    n: "length reports = length calls" and
    l: "arrays st' (slippageReports st') =
       drop (length (arrays st (slippageReports st) @ reports) - MAX_REPORTS_IN_MEMORY)
         (arrays st (slippageReports st) @ reports)"
    using recordAll_log [of st calls] assms by auto
  from l assms have "arrays st' (slippageReports st') =
      drop (length reports - MAX_REPORTS_IN_MEMORY) reports" by simp
  then show ?thesis using ra n by auto
qed

theorem report_log_bounded_fifo_witness:
  "\<exists>reports st'.
     recordAll example_state (replicate 1001 (example_context, 101, 5, 6)) = Inr (reports, st') \<and>
     length reports = 1001 \<and>
     arrays st' (slippageReports st') = drop 1 reports \<and>
     length (arrays st' (slippageReports st')) \<le> 1000"
  using report_log_bounded_fifo [of example_state "replicate 1001 (example_context, 101, 5, 6)"]
  by (auto simp add: example_state_def MAX_REPORTS_IN_MEMORY_def)

subsection \<open>The running statistics of a symbol\<close>

lemma updateSeq_existing:
  assumes "hist symb = Some r0"
  shows "\<exists>r. updateSeq hist symb updates symb = Some r \<and>
     hist_symbol r = (if updates = [] then hist_symbol r0 else symb) \<and>
     sampleCount r = sampleCount r0 + length updates \<and>
     averageSlippage r * real (sampleCount r) =
       averageSlippage r0 * real (sampleCount r0) + sum_list (map fst updates) \<and>
     maxSlippage r = fold max (map fst updates) (maxSlippage r0)"
  using assms
proof (induction updates arbitrary: hist r0)
  case Nil
  then show ?case by (simp add: updateSeq_def)
next
  case (Cons u updates)
  obtain v now where u: "u = (v, now)" by (cases u) auto
  define r1 where "r1 = \<lparr>hist_symbol = symb,
      averageSlippage = (averageSlippage r0 * real (sampleCount r0) + v) / real (sampleCount r0 + 1),
      maxSlippage = max (maxSlippage r0) v,
      sampleCount = sampleCount r0 + 1, lastUpdated = now\<rparr>"
  have step: "updateHistoricalSlippage hist symb v now symb = Some r1"
    using Cons.prems by (simp add: updateHistoricalSlippage_def Let_def r1_def)
  have unf: "updateSeq hist symb (u # updates) = updateSeq (updateHistoricalSlippage hist symb v now) symb updates"
    by (simp add: updateSeq_def u)
  have avg: "averageSlippage r1 * real (sampleCount r1) = averageSlippage r0 * real (sampleCount r0) + v"
    by (simp add: r1_def)
  from Cons.IH [of "updateHistoricalSlippage hist symb v now" r1, OF step] obtain r where
    "updateSeq (updateHistoricalSlippage hist symb v now) symb updates symb = Some r"
    "hist_symbol r = (if updates = [] then hist_symbol r1 else symb)"
    "sampleCount r = sampleCount r1 + length updates"
    "averageSlippage r * real (sampleCount r) =
       averageSlippage r1 * real (sampleCount r1) + sum_list (map fst updates)"
    "maxSlippage r = fold max (map fst updates) (maxSlippage r1)"
    by blast
  then show ?case
    using avg unf by (auto simp add: u r1_def max.commute)
qed

text \<open>
  C5. For every symbol without a record and every non-empty sequence of
  \<^verbatim>\<open>updateHistoricalSlippage\<close> calls for it with the values \<open>v1..vN\<close>, the record of the
  symbol afterwards has the arithmetic mean of the values as its average, \<open>N\<close> as its
  sample count and the maximum of the values as its maximum.
\<close>

theorem running_average:
  assumes "hist symb = None" and "updates \<noteq> []"
  shows "\<exists>r. updateSeq hist symb updates symb = Some r \<and>
     averageSlippage r = sum_list (map fst updates) / real (length updates) \<and>
     sampleCount r = length updates \<and>
     maxSlippage r = Max (set (map fst updates))"
proof -
  obtain v now rest where u: "updates = (v, now) # rest"
    using assms(2) by (cases updates) auto
  define r0 where "r0 = \<lparr>hist_symbol = symb, averageSlippage = v, maxSlippage = v,
      sampleCount = 1, lastUpdated = now\<rparr>"
  have first: "updateHistoricalSlippage hist symb v now symb = Some r0"
    using assms(1) by (simp add: updateHistoricalSlippage_def r0_def)
  have unf: "updateSeq hist symb updates = updateSeq (updateHistoricalSlippage hist symb v now) symb rest"
    by (simp add: updateSeq_def u)
  from updateSeq_existing [of "updateHistoricalSlippage hist symb v now" symb r0 rest, OF first] obtain r where
    r: "updateSeq (updateHistoricalSlippage hist symb v now) symb rest symb = Some r" and
    n: "sampleCount r = sampleCount r0 + length rest" and
    a: "averageSlippage r * real (sampleCount r) =
       averageSlippage r0 * real (sampleCount r0) + sum_list (map fst rest)" and
    m: "maxSlippage r = fold max (map fst rest) (maxSlippage r0)"
    by blast
  have n': "sampleCount r = length updates" using n by (simp add: r0_def u)
  have "averageSlippage r * real (length updates) = sum_list (map fst updates)"
    using a n' by (simp add: r0_def u)
  then have a': "averageSlippage r = sum_list (map fst updates) / real (length updates)"
    using assms(2) by (simp add: field_simps)
  have m': "maxSlippage r = Max (set (map fst updates))"
    using m Max.set_eq_fold [of v "map fst rest"] by (simp add: r0_def u)
  show ?thesis using r unf n' a' m' by simp
qed

theorem running_average_witness:
  "\<exists>r. updateSeq Map.empty ''BTC/USD'' [(1 / 10, 1), (3 / 10, 2)] ''BTC/USD'' = Some r \<and>
       averageSlippage r = 1 / 5 \<and> sampleCount r = 2 \<and> maxSlippage r = 3 / 10"
  using running_average [of Map.empty "''BTC/USD''" "[(1 / 10, 1), (3 / 10, 2)]"]
  by (simp add: numeral_2_eq_2)

subsection \<open>Validation of a written configuration\<close>

lemma validateConfig_accepts:
  "validateConfig config = Inr () \<longleftrightarrow>
     0 \<le> maxSlippagePercent config \<and> maxSlippagePercent config \<le> 100 \<and>
     (case maxExecutionTimeMs config of None \<Rightarrow> True | Some t \<Rightarrow> t = 0 \<or> 100 \<le> t)"
  by (auto simp add: validateConfig_def split: option.splits)

lemma validateConfig_rejects:
  assumes "maxSlippagePercent config < 0 \<or> maxSlippagePercent config > 100 \<or>
           (\<exists>t. maxExecutionTimeMs config = Some t \<and> t \<noteq> 0 \<and> t < 100)"
  shows "(\<exists>e. validateConfig config = Inl e) \<and>
         (\<exists>e. setUserPreferences st uid config overrides now = Inl e) \<and>
         (\<exists>e. setSymbolOverride st uid symb config now = Inl e)"
  using assms
  by (auto simp add: validateConfig_def setUserPreferences_def setSymbolOverride_def)

lemma validateEach_rejects:
  "c \<in> set cs \<Longrightarrow> validateConfig c = Inl e \<Longrightarrow> \<exists>e'. validateEach cs = Inl e'"
  by (induction cs) (auto split: sum.splits)

lemma setUserPreferences_rejects_override:
  assumes "(k, c) \<in> set overrides" and "validateConfig c = Inl e"
  shows "\<exists>e'. setUserPreferences st uid config (Some overrides) now = Inl e'"
proof -
  have "c \<in> set (map snd overrides)"
    using assms(1) by force
  then obtain e' where "validateEach (map snd overrides) = Inl e'"
    using validateEach_rejects assms(2) by blast
  then show ?thesis
    by (simp add: setUserPreferences_def split: sum.splits)
qed

text \<open>
  C6, at a failing input. A configuration with \<open>maxExecutionTimeMs = 40000\<close>, above the
  maximum \<open>30000\<close> that \<^verbatim>\<open>SlippageConfigDto\<close> declares, is accepted by
  \<^verbatim>\<open>setUserPreferences\<close> and stored; so is one with \<open>maxExecutionTimeMs = 0\<close>, below the
  minimum \<open>100\<close>, by \<^verbatim>\<open>setSymbolOverride\<close>.
\<close>

theorem out_of_range_timeout_accepted:
  "setUserPreferences example_state ''u''
     \<lparr>maxSlippagePercent = 0.5, toleranceLevel = None, enableDynamicSlippage = None,
      maxExecutionTimeMs = Some 40000\<rparr> None 7 =
   Inr (example_state\<lparr>userPreferences := [''u'' \<mapsto>
      \<lparr>userId = ''u'',
       defaultConfig = \<lparr>maxSlippagePercent = 0.5, toleranceLevel = None,
         enableDynamicSlippage = None, maxExecutionTimeMs = Some 40000\<rparr>,
       symbolOverrides = None, prefs_lastUpdated = 7\<rparr>]\<rparr>) \<and>
   setSymbolOverride example_state ''u'' ''BTC/USD''
     \<lparr>maxSlippagePercent = 0.5, toleranceLevel = None, enableDynamicSlippage = None,
      maxExecutionTimeMs = Some 0\<rparr> 7 =
   Inr (example_state\<lparr>userPreferences := [''u'' \<mapsto>
      \<lparr>userId = ''u'', defaultConfig = DEFAULT_CONFIG,
       symbolOverrides = Some [(''BTC/USD'',
         \<lparr>maxSlippagePercent = 0.5, toleranceLevel = None,
          enableDynamicSlippage = None, maxExecutionTimeMs = Some 0\<rparr>)],
       prefs_lastUpdated = 7\<rparr>]\<rparr>)"
  by (simp add: setUserPreferences_def setSymbolOverride_def validateConfig_def
      example_state_def Let_def)

subsection \<open>Order splitting\<close>

lemma estimateSlippage_returns:
  "\<exists>e. estimateSlippage h p d m = Inr e"
  by (simp add: estimateSlippage_def Let_def split: prod.splits)

lemma chunkSearch_returns:
  assumes "high - low \<le> totalQuantity * 0.05 * 2 ^ n"
  shows "\<exists>c. chunkSearch hist provider symb sd totalQuantity maxPct k low high opt = Some (Inr c) \<and>
           (c = opt \<or> (min low high \<le> c \<and> c \<le> max low high))"
  using assms
proof (induction n arbitrary: k low high opt)
  case 0
  then have "\<not> high - low > totalQuantity * 0.05" by simp
  then show ?case by (subst chunkSearch.simps) simp
next
  case (Suc n)
  show ?case
  proof (cases "high - low > totalQuantity * 0.05")
    case False
    then show ?thesis by (subst chunkSearch.simps) simp
  next
    case True
    define mid where "mid = (low + high) / 2"
    obtain e where e: "estimateSlippage hist (provider k)
        \<lparr>dto_symbol = symb, dto_side = sd, dto_quantity = mid, dto_expectedPrice = None\<rparr> None
        = Inr e"
      using estimateSlippage_returns by blast
    have w1: "high - mid \<le> totalQuantity * 0.05 * 2 ^ n"
      using Suc.prems by (simp add: mid_def field_simps)
    have w2: "mid - low \<le> totalQuantity * 0.05 * 2 ^ n"
      using Suc.prems by (simp add: mid_def field_simps)
    have between: "min low high \<le> mid \<and> mid \<le> max low high"
      by (simp add: mid_def min_def max_def field_simps)
    show ?thesis
    proof (cases "estimatedSlippagePercent e \<le> maxPct")
      case True
      from Suc.IH [OF w1, of "Suc k" mid] obtain c where
        c: "chunkSearch hist provider symb sd totalQuantity maxPct (Suc k) mid high mid
              = Some (Inr c)"
        and b: "c = mid \<or> (min mid high \<le> c \<and> c \<le> max mid high)"
        by blast
      have "min low high \<le> c \<and> c \<le> max low high"
        using b between by (auto simp add: min_def max_def split: if_splits)
      then show ?thesis
        using \<open>high - low > totalQuantity * 0.05\<close> e True c
        by (subst chunkSearch.simps) (simp add: mid_def Let_def)
    next
      case False
      from Suc.IH [OF w2, of "Suc k" opt] obtain c where
        c: "chunkSearch hist provider symb sd totalQuantity maxPct (Suc k) low mid opt
              = Some (Inr c)"
        and b: "c = opt \<or> (min low mid \<le> c \<and> c \<le> max low mid)"
        by blast
      have "c = opt \<or> (min low high \<le> c \<and> c \<le> max low high)"
        using b between by (auto simp add: min_def max_def split: if_splits)
      then show ?thesis
        using \<open>high - low > totalQuantity * 0.05\<close> e False c
        by (subst chunkSearch.simps) (simp add: mid_def Let_def)
    qed
  qed
qed

lemma initial_width:
  "\<exists>n. totalQuantity - totalQuantity * 0.1 \<le> totalQuantity * 0.05 * 2 ^ n" for totalQuantity :: real
proof (cases "0 \<le> totalQuantity")
  case True
  then have "totalQuantity - totalQuantity * 0.1 \<le> totalQuantity * 0.05 * 2 ^ 5" by simp
  then show ?thesis by blast
next
  case False
  then have "totalQuantity - totalQuantity * 0.1 \<le> totalQuantity * 0.05 * 2 ^ 0" by simp
  then show ?thesis by blast
qed

text \<open>
  C8. \<^verbatim>\<open>shouldSplitOrder\<close> returns (the search ends) whenever the estimate for the full
  quantity is returned. If the estimated percentage for the full quantity is at most the
  limit (\<open>0.5\<close> when none is given), the result has \<open>shouldSplit = False\<close> and no
  recommended chunk size; otherwise it has \<open>shouldSplit = True\<close>, a recommended chunk size
  \<open>c\<close> and \<open>estimatedChunks = \<lceil>totalQuantity / c\<rceil>\<close>, where \<open>c\<close> is not \<open>0\<close> unless the
  total quantity is.
\<close>

theorem shouldSplitOrder_result:
  assumes "estimateSlippage hist (provider 0)
             \<lparr>dto_symbol = symb, dto_side = sd, dto_quantity = totalQuantity,
              dto_expectedPrice = None\<rparr> None = Inr full"
  shows "\<exists>r. shouldSplitOrder hist provider symb sd totalQuantity maxSlippagePct = Some (Inr r) \<and>
     (if estimatedSlippagePercent full \<le> (case maxSlippagePct of None \<Rightarrow> 0.5 | Some m \<Rightarrow> m)
      then \<not> shouldSplit r \<and> recommendedChunkSize r = None
      else shouldSplit r \<and>
        (\<exists>c. recommendedChunkSize r = Some c \<and>
           estimatedChunks r = Some \<lceil>totalQuantity / c\<rceil> \<and>
           (totalQuantity \<noteq> 0 \<longrightarrow> c \<noteq> 0)))"
proof -
  define maxPct where "maxPct = (case maxSlippagePct of None \<Rightarrow> 0.5 | Some m \<Rightarrow> m)"
  obtain n where n: "totalQuantity - totalQuantity * 0.1 \<le> totalQuantity * 0.05 * 2 ^ n"
    using initial_width by blast
  from chunkSearch_returns [OF n, of hist provider symb sd maxPct 1 totalQuantity]
  obtain c where
    c: "chunkSearch hist provider symb sd totalQuantity maxPct 1 (totalQuantity * 0.1)
          totalQuantity totalQuantity = Some (Inr c)"
    and b: "c = totalQuantity \<or>
      (min (totalQuantity * 0.1) totalQuantity \<le> c \<and> c \<le> max (totalQuantity * 0.1) totalQuantity)"
    by blast
  have nz: "totalQuantity \<noteq> 0 \<longrightarrow> c \<noteq> 0"
    using b by (auto simp add: min_def max_def split: if_splits)
  show ?thesis
    using assms c nz
    by (simp add: shouldSplitOrder_def Let_def maxPct_def [symmetric])
qed

theorem shouldSplitOrder_result_witness:
  "\<exists>r. shouldSplitOrder Map.empty (\<lambda>_. example_provider) ''BTC/USD'' Buy 3 None
          = Some (Inr r) \<and>
       shouldSplit r \<and>
       (\<exists>c. recommendedChunkSize r = Some c \<and> estimatedChunks r = Some \<lceil>3 / c\<rceil> \<and> c \<noteq> 0)"
  using shouldSplitOrder_result [where hist = Map.empty and provider = "\<lambda>_. example_provider"
      and symb = "''BTC/USD''" and sd = Buy and totalQuantity = 3 and maxSlippagePct = None,
      OF estimateSlippage_example_3]
  by simp

subsection \<open>The queries change no engine state\<close>

lemma frame_refl: "n \<le> nextAddr st \<Longrightarrow> frame n st st"
  by (simp add: frame_def)

lemma frame_alloc:
  "frame n st st1 \<Longrightarrow> allocArray st1 xs = (a, st2) \<Longrightarrow> frame n st st2 \<and> n \<le> a"
  by (auto simp add: frame_def allocArray_def)

lemma frame_filter:
  "frame n st st1 \<Longrightarrow> filterArray st1 b P = (a, st2) \<Longrightarrow> frame n st st2 \<and> n \<le> a"
  unfolding filterArray_def by (rule frame_alloc)

lemma frame_sort:
  "frame n st st1 \<Longrightarrow> n \<le> a \<Longrightarrow> frame n st (sortInPlace st1 a)"
  by (auto simp add: frame_def sortInPlace_def)

lemma frame_preserved:
  "frame n st st' \<Longrightarrow> slippageReports st < n \<Longrightarrow> preserved st st'"
  by (simp add: frame_def preserved_def)

lemma getSlippageReports_frame:
  assumes "n \<le> nextAddr st"
  shows "frame n st (snd (getSlippageReports st filters))"
proof -
  obtain r0 s0 where a0: "allocArray st (arrays st (slippageReports st)) = (r0, s0)"
    by fastforce
  have f0: "frame n st s0 \<and> n \<le> r0"
    using frame_alloc [OF frame_refl [OF assms] a0] .
  obtain r1 s1 where a1:
    "(case Option.bind filters f_symbol of
        None \<Rightarrow> (r0, s0)
      | Some s \<Rightarrow>
          if s = [] then (r0, s0)
          else filterArray s0 r0 (\<lambda>r. rep_symbol r = s)) = (r1, s1)"
    by fastforce
  have f1: "frame n st s1 \<and> n \<le> r1"
    using f0 a1 by (auto split: option.splits if_splits dest: frame_filter)
  obtain r2 s2 where a2:
    "(case Option.bind filters startDate of
        None \<Rightarrow> (r1, s1)
      | Some d \<Rightarrow> filterArray s1 r1 (\<lambda>r. timestamp r \<ge> d)) = (r2, s2)"
    by fastforce
  have f2: "frame n st s2 \<and> n \<le> r2"
    using f1 a2 by (auto split: option.splits dest: frame_filter)
  obtain r3 s3 where a3:
    "(case Option.bind filters endDate of
        None \<Rightarrow> (r2, s2)
      | Some d \<Rightarrow> filterArray s2 r2 (\<lambda>r. timestamp r \<le> d)) = (r3, s3)"
    by fastforce
  have f3: "frame n st s3 \<and> n \<le> r3"
    using f2 a3 by (auto split: option.splits dest: frame_filter)
  obtain r4 s4 where a4:
    "(if Option.bind filters onlyExceeded = Some True
      then filterArray s3 r3 (\<lambda>r. \<not> withinLimits r)
      else (r3, s3)) = (r4, s4)"
    by fastforce
  have f4: "frame n st s4 \<and> n \<le> r4"
    using f3 a4 by (auto split: if_splits dest: frame_filter)
  define s5 where "s5 = sortInPlace s4 r4"
  have f5: "frame n st s5"
    using f4 by (simp add: s5_def frame_sort)
  obtain r6 s6 where a6:
    "(case Option.bind filters limit of
        None \<Rightarrow> (r4, s5)
      | Some k \<Rightarrow>
          if k = 0 then (r4, s5)
          else allocArray s5 (slice0 k (arrays s5 r4))) = (r6, s6)"
    by fastforce
  have f6: "frame n st s6"
    using f5 a6 by (auto split: option.splits if_splits dest: frame_alloc)
  have "getSlippageReports st filters = (arrays s6 r6, s6)"
    unfolding getSlippageReports_def
    by (simp only: a0 a1 a2 a3 a4 a6 s5_def [symmetric] prod.case)
  then show ?thesis using f6 by simp
qed

lemma getSlippageStatistics_frame:
  assumes "n \<le> nextAddr st"
  shows "frame n st (snd (getSlippageStatistics st symb daysBack now))"
proof -
  define cutoff where "cutoff = now - (case daysBack of None \<Rightarrow> 7 | Some d \<Rightarrow> d) * 86400000"
  obtain r1 s1 where a1:
    "filterArray st (slippageReports st) (\<lambda>r. rep_symbol r = symb \<and> timestamp r \<ge> cutoff)
       = (r1, s1)"
    by fastforce
  have f1: "frame n st s1 \<and> n \<le> r1"
    using frame_filter [OF frame_refl [OF assms] a1] .
  obtain r2 s2 where a2: "filterArray s1 r1 (\<lambda>r. \<not> withinLimits r) = (r2, s2)"
    by fastforce
  have f2: "frame n st s2 \<and> n \<le> r2"
    using frame_filter [OF _ a2] f1 by blast
  show ?thesis
    using f1 f2 a1 a2
    by (simp add: getSlippageStatistics_def Let_def cutoff_def [symmetric])
qed

lemma getSlippageReports_example:
  "getSlippageReports example_log_state None =
     ([example_report 2, example_report 1],
      example_log_state\<lparr>arrays := (arrays example_log_state)(1 := [example_report 2, example_report 1]), nextAddr := 2\<rparr>)"
  by (simp add: getSlippageReports_def example_log_state_def allocArray_def sortInPlace_def example_report_def)

text \<open>
  C10. On a state whose log array is allocated, \<^verbatim>\<open>getSlippageReports\<close> (for every filter
  argument) and \<^verbatim>\<open>getSlippageStatistics\<close> (for every symbol, period and clock reading)
  leave the engine state as it was: preferences, historical statistics and the log, with
  its contents in their order. The arrays they write, the sorted one among them, are the
  fresh ones they allocate.
\<close>

theorem queries_preserve_state:
  assumes "slippageReports st < nextAddr st"
  shows "preserved st (snd (getSlippageReports st filters)) \<and>
         preserved st (snd (getSlippageStatistics st symb daysBack now))"
  using assms getSlippageReports_frame [of "nextAddr st" st filters]
    getSlippageStatistics_frame [of "nextAddr st" st symb daysBack now]
  by (simp add: frame_preserved)

theorem queries_preserve_state_witness:
  "fst (getSlippageReports example_log_state None) = [example_report 2, example_report 1] \<and>
   arrays (snd (getSlippageReports example_log_state None)) 0 = [example_report 1, example_report 2] \<and>
   preserved example_log_state (snd (getSlippageReports example_log_state None)) \<and>
   preserved example_log_state
     (snd (getSlippageStatistics example_log_state ''BTC/USD'' None 3))"
  using queries_preserve_state [of example_log_state None "''BTC/USD''" None 3]
  by (simp add: getSlippageReports_example) (simp add: example_log_state_def)

text \<open>The same sort, were it applied to the log array itself, would reorder the log.\<close>

lemma sortInPlace_on_log:
  "arrays (sortInPlace example_log_state (slippageReports example_log_state)) 0 = [example_report 2, example_report 1]"
  by (simp add: sortInPlace_def example_log_state_def example_report_def)

end
